theory Spec2Isabelle
  imports Main "HOL-Library.Word" "HOL-Library.Signed_Division"
begin

unbundle bit_operations_syntax

section \<open>definitions.h: cell kinds, directions, reward codes\<close>

text \<open>
  \<^verbatim>\<open>enum class HiddenCellType : int8_t\<close>. The constructors are listed in the order of
  their ordinals; \<open>to_underlying\<close> gives the ordinal written in the header.
\<close>

datatype (plugins only: code) HiddenCellType =
    kNull | kAgent | kEmpty | kDirt | kStone | kStoneFalling | kDiamond | kDiamondFalling
  | kExitClosed | kExitOpen | kAgentInExit
  | kFireflyUp | kFireflyLeft | kFireflyDown | kFireflyRight
  | kButterflyUp | kButterflyLeft | kButterflyDown | kButterflyRight
  | kWallBrick | kWallSteel | kWallMagicDormant | kWallMagicOn | kWallMagicExpired
  | kBlob | kExplosionDiamond | kExplosionBoulder | kExplosionEmpty
  | kGateRedClosed | kGateRedOpen | kKeyRed
  | kGateBlueClosed | kGateBlueOpen | kKeyBlue
  | kGateGreenClosed | kGateGreenOpen | kKeyGreen
  | kGateYellowClosed | kGateYellowOpen | kKeyYellow
  | kNut | kNutFalling | kBomb | kBombFalling
  | kOrangeUp | kOrangeLeft | kOrangeDown | kOrangeRight
  | kPebbleInDirt | kStoneInDirt | kVoidInDirt

fun to_underlying :: "HiddenCellType \<Rightarrow> int" where
  "to_underlying kNull = -1"
| "to_underlying kAgent = 0"
| "to_underlying kEmpty = 1"
| "to_underlying kDirt = 2"
| "to_underlying kStone = 3"
| "to_underlying kStoneFalling = 4"
| "to_underlying kDiamond = 5"
| "to_underlying kDiamondFalling = 6"
| "to_underlying kExitClosed = 7"
| "to_underlying kExitOpen = 8"
| "to_underlying kAgentInExit = 9"
| "to_underlying kFireflyUp = 10"
| "to_underlying kFireflyLeft = 11"
| "to_underlying kFireflyDown = 12"
| "to_underlying kFireflyRight = 13"
| "to_underlying kButterflyUp = 14"
| "to_underlying kButterflyLeft = 15"
| "to_underlying kButterflyDown = 16"
| "to_underlying kButterflyRight = 17"
| "to_underlying kWallBrick = 18"
| "to_underlying kWallSteel = 19"
| "to_underlying kWallMagicDormant = 20"
| "to_underlying kWallMagicOn = 21"
| "to_underlying kWallMagicExpired = 22"
| "to_underlying kBlob = 23"
| "to_underlying kExplosionDiamond = 24"
| "to_underlying kExplosionBoulder = 25"
| "to_underlying kExplosionEmpty = 26"
| "to_underlying kGateRedClosed = 27"
| "to_underlying kGateRedOpen = 28"
| "to_underlying kKeyRed = 29"
| "to_underlying kGateBlueClosed = 30"
| "to_underlying kGateBlueOpen = 31"
| "to_underlying kKeyBlue = 32"
| "to_underlying kGateGreenClosed = 33"
| "to_underlying kGateGreenOpen = 34"
| "to_underlying kKeyGreen = 35"
| "to_underlying kGateYellowClosed = 36"
| "to_underlying kGateYellowOpen = 37"
| "to_underlying kKeyYellow = 38"
| "to_underlying kNut = 39"
| "to_underlying kNutFalling = 40"
| "to_underlying kBomb = 41"
| "to_underlying kBombFalling = 42"
| "to_underlying kOrangeUp = 43"
| "to_underlying kOrangeLeft = 44"
| "to_underlying kOrangeDown = 45"
| "to_underlying kOrangeRight = 46"
| "to_underlying kPebbleInDirt = 47"
| "to_underlying kStoneInDirt = 48"
| "to_underlying kVoidInDirt = 49"

definition kNumHiddenCellType :: int where
  "kNumHiddenCellType = 50"

definition kNumVisibleCellType :: int where
  "kNumVisibleCellType = 34"

text \<open>The cell kinds a level string can name, at the position of their ordinal.\<close>

definition hidden_cell_types :: "HiddenCellType list" where
  "hidden_cell_types =
    [kAgent, kEmpty, kDirt, kStone, kStoneFalling, kDiamond, kDiamondFalling,
     kExitClosed, kExitOpen, kAgentInExit,
     kFireflyUp, kFireflyLeft, kFireflyDown, kFireflyRight,
     kButterflyUp, kButterflyLeft, kButterflyDown, kButterflyRight,
     kWallBrick, kWallSteel, kWallMagicDormant, kWallMagicOn, kWallMagicExpired,
     kBlob, kExplosionDiamond, kExplosionBoulder, kExplosionEmpty,
     kGateRedClosed, kGateRedOpen, kKeyRed,
     kGateBlueClosed, kGateBlueOpen, kKeyBlue,
     kGateGreenClosed, kGateGreenOpen, kKeyGreen,
     kGateYellowClosed, kGateYellowOpen, kKeyYellow,
     kNut, kNutFalling, kBomb, kBombFalling,
     kOrangeUp, kOrangeLeft, kOrangeDown, kOrangeRight,
     kPebbleInDirt, kStoneInDirt, kVoidInDirt]"

text \<open>\<^verbatim>\<open>is_valid_hidden_element\<close> of boulderdash_base.h: the upper bound in the source
  is \<^verbatim>\<open>kNumVisibleCellType\<close>.\<close>

definition is_valid_hidden_element :: "HiddenCellType \<Rightarrow> bool" where
  "is_valid_hidden_element element \<longleftrightarrow>
     to_underlying element \<ge> 0 \<and> to_underlying element < kNumVisibleCellType"


text \<open>\<^verbatim>\<open>enum class Action\<close> and \<^verbatim>\<open>enum class Direction\<close>; a direction's ordinal is its
  position in \<open>all_directions\<close>, and an action is cast to the direction of the same
  ordinal.\<close>

datatype Action = kActionUp | kActionRight | kActionDown | kActionLeft

datatype Direction =
  kUp | kRight | kDown | kLeft | kNoop | kUpRight | kDownRight | kDownLeft | kUpLeft

definition kNumDirections :: nat where
  "kNumDirections = 9"

definition kNumActions :: nat where
  "kNumActions = 4"

definition all_directions :: "Direction list" where
  "all_directions = [kUp, kRight, kDown, kLeft, kNoop, kUpRight, kDownRight, kDownLeft, kUpLeft]"

fun action_to_direction :: "Action \<Rightarrow> Direction" where
  "action_to_direction kActionUp = kUp"
| "action_to_direction kActionRight = kRight"
| "action_to_direction kActionDown = kDown"
| "action_to_direction kActionLeft = kLeft"

type_synonym u64 = "64 word"

text \<open>
  The type \<^verbatim>\<open>int\<close> of the source has 32 bits. Where a product or a sum of the source
  can leave that range (the product \<^verbatim>\<open>rows * cols\<close> of two numbers read from the level
  string, the seed of \<^verbatim>\<open>to_local_hash\<close>) the model takes the result the compiled code
  computes, the two's complement value of the low 32 bits.
\<close>

definition wrap_int :: "int \<Rightarrow> int" where
  "wrap_int x = (x + 2 ^ 31) mod 2 ^ 32 - 2 ^ 31"

text \<open>\<^verbatim>\<open>enum RewardCodes : uint64_t\<close>.\<close>

definition kRewardNone :: u64 where "kRewardNone = 0"
definition kRewardAgentDies :: u64 where "kRewardAgentDies = push_bit 0 1"
definition kRewardCollectDiamond :: u64 where "kRewardCollectDiamond = push_bit 1 1"
definition kRewardWalkThroughExit :: u64 where "kRewardWalkThroughExit = push_bit 2 1"
definition kRewardNutToDiamond :: u64 where "kRewardNutToDiamond = push_bit 3 1"
definition kRewardButterflyToDiamond :: u64 where "kRewardButterflyToDiamond = push_bit 4 1"
definition kRewardCollectKey :: u64 where "kRewardCollectKey = push_bit 5 1"
definition kRewardCollectKeyRed :: u64 where "kRewardCollectKeyRed = push_bit 6 1"
definition kRewardCollectKeyBlue :: u64 where "kRewardCollectKeyBlue = push_bit 7 1"
definition kRewardCollectKeyGreen :: u64 where "kRewardCollectKeyGreen = push_bit 8 1"
definition kRewardCollectKeyYellow :: u64 where "kRewardCollectKeyYellow = push_bit 9 1"
definition kRewardWalkThroughGate :: u64 where "kRewardWalkThroughGate = push_bit 10 1"
definition kRewardWalkThroughGateRed :: u64 where "kRewardWalkThroughGateRed = push_bit 11 1"
definition kRewardWalkThroughGateBlue :: u64 where "kRewardWalkThroughGateBlue = push_bit 12 1"
definition kRewardWalkThroughGateGreen :: u64 where "kRewardWalkThroughGateGreen = push_bit 13 1"
definition kRewardWalkThroughGateYellow :: u64 where "kRewardWalkThroughGateYellow = push_bit 14 1"

text \<open>\<^verbatim>\<open>enum ButterflyExplosionVersion\<close> and \<^verbatim>\<open>enum ButterflyMoveVersion\<close>; the state
  keeps both as plain \<^verbatim>\<open>int\<close>.\<close>

definition kExplode :: int where "kExplode = 1"
definition kConvert :: int where "kConvert = 2"
definition kDelay :: int where "kDelay = 1"
definition kInstant :: int where "kInstant = 2"

section \<open>boulderdash_base.cpp: hashing and random numbers\<close>

definition SPLIT64_S1 :: nat where "SPLIT64_S1 = 30"
definition SPLIT64_S2 :: nat where "SPLIT64_S2 = 27"
definition SPLIT64_S3 :: nat where "SPLIT64_S3 = 31"
definition SPLIT64_C1 :: u64 where "SPLIT64_C1 = 0x9E3779B97F4A7C15"
definition SPLIT64_C2 :: u64 where "SPLIT64_C2 = 0xBF58476D1CE4E5B9"
definition SPLIT64_C3 :: u64 where "SPLIT64_C3 = 0x94D049BB133111EB"

definition splitmix64 :: "u64 \<Rightarrow> u64" where
  "splitmix64 seed =
    (let result = seed + SPLIT64_C1;
         result = (result XOR drop_bit SPLIT64_S1 result) * SPLIT64_C2;
         result = (result XOR drop_bit SPLIT64_S2 result) * SPLIT64_C3
     in result XOR drop_bit SPLIT64_S3 result)"

text \<open>\<^verbatim>\<open>xorshift64(uint64_t &s)\<close>: the value returned is also the new state.\<close>

definition xorshift64 :: "u64 \<Rightarrow> u64" where
  "xorshift64 s =
    (let x = s;
         x = x XOR push_bit 13 x;
         x = x XOR drop_bit 7 x;
         x = x XOR push_bit 17 x
     in x)"

text \<open>\<^verbatim>\<open>to_local_hash\<close>: the seed is computed in \<^verbatim>\<open>int\<close> and then converted to
  \<^verbatim>\<open>uint64_t\<close>, that is, taken modulo \<open>2 ^ 64\<close>.\<close>

definition to_local_hash :: "int \<Rightarrow> HiddenCellType \<Rightarrow> int \<Rightarrow> u64" where
  "to_local_hash flat_size el offset =
    (let seed = (word_of_int (wrap_int (wrap_int (flat_size * to_underlying el) + offset)) :: u64);
         result = seed + SPLIT64_C1;
         result = (result XOR drop_bit SPLIT64_S1 result) * SPLIT64_C2;
         result = (result XOR drop_bit SPLIT64_S2 result) * SPLIT64_C3
     in result XOR drop_bit SPLIT64_S3 result)"

section \<open>Errors\<close>

text \<open>
  What ends a call without a result: an exception thrown to the caller
  (\<^verbatim>\<open>std::invalid_argument\<close> with its message, \<^verbatim>\<open>std::out_of_range\<close> of a failed
  \<^verbatim>\<open>.at\<close>), an \<^verbatim>\<open>assert\<close> that fails in a build with assertions, an exception
  inside a \<^verbatim>\<open>noexcept\<close> function (\<^verbatim>\<open>std::terminate\<close>), and behaviour the language
  leaves undefined (an access outside a vector, a division by zero). \<open>OutOfFuel\<close>
  belongs to the model only: the recursion of \<^verbatim>\<open>Explode\<close> is bounded by a depth
  parameter, and a run that reaches the bound stops with it.
\<close>

datatype error =
    InvalidArgument string
  | OutOfRange
  | AssertionFailed
  | Terminate
  | UndefinedBehaviour
  | OutOfFuel

definition and_then :: "error + 'a \<Rightarrow> ('a \<Rightarrow> error + 'b) \<Rightarrow> error + 'b" where
  "and_then m f = (case m of Inl e \<Rightarrow> Inl e | Inr x \<Rightarrow> f x)"

text \<open>A loop over a range or a list whose body can fail.\<close>

fun for_each :: "'i list \<Rightarrow> ('i \<Rightarrow> 's \<Rightarrow> error + 's) \<Rightarrow> 's \<Rightarrow> error + 's" where
  "for_each [] body s = Inr s"
| "for_each (i # is) body s = and_then (body i s) (for_each is body)"

text \<open>A lookup with \<^verbatim>\<open>.at\<close> inside a \<^verbatim>\<open>noexcept\<close> function.\<close>

definition at_noexcept :: "'a option \<Rightarrow> error + 'a" where
  "at_noexcept v = (case v of None \<Rightarrow> Inl Terminate | Some x \<Rightarrow> Inr x)"


section \<open>util.h: the element catalog\<close>

text \<open>
  Modelled from the spec: \<^verbatim>\<open>util.h\<close>, which declares the element table and the lookup
  tables the state's functions consult, is not among the sources. Its tables and
  predicates are the fields of the record \<open>util_tables\<close>, one field per name the
  functions use, and every function below takes the record as its first argument; what
  is proved of a function holds for whatever the tables contain, unless a hypothesis
  says otherwise. An \<^verbatim>\<open>Element\<close> is identified with its \<^verbatim>\<open>cell_type\<close> (equality on
  elements is equality of cell types, and \<^verbatim>\<open>kCellTypeToElement\<close> is keyed by the cell
  type), so \<^verbatim>\<open>kElEmpty\<close> is \<open>kEmpty\<close> and so on. A map queried with \<^verbatim>\<open>find\<close> or
  \<^verbatim>\<open>at\<close> is a partial function; an array indexed by a direction is a function.
\<close>

datatype ElementProperty = kRounded | kPushable | kCanExplode | kConsumable | kTraversable

record util_tables =
  properties :: "HiddenCellType \<Rightarrow> int"
  ElementProperties :: "ElementProperty \<Rightarrow> int"
  kDirectionOffsets :: "Direction \<Rightarrow> int \<times> int"
  kRotateLeft :: "Direction \<Rightarrow> Direction"
  kRotateRight :: "Direction \<Rightarrow> Direction"
  kDirectionToFirefly :: "Direction \<Rightarrow> HiddenCellType"
  kDirectionToButterfly :: "Direction \<Rightarrow> HiddenCellType"
  kDirectionToOrange :: "Direction \<Rightarrow> HiddenCellType"
  kFireflyToDirection :: "HiddenCellType \<Rightarrow> Direction option"
  kButterflyToDirection :: "HiddenCellType \<Rightarrow> Direction option"
  kOrangeToDirection :: "HiddenCellType \<Rightarrow> Direction option"
  kElementToExplosion :: "HiddenCellType \<Rightarrow> HiddenCellType option"
  kExplosionToElement :: "HiddenCellType \<Rightarrow> HiddenCellType option"
  kExplosionToReward :: "HiddenCellType \<Rightarrow> u64 option"
  kMagicWallConversion :: "HiddenCellType \<Rightarrow> HiddenCellType option"
  kElToFalling :: "HiddenCellType \<Rightarrow> HiddenCellType option"
  kKeyToGate :: "HiddenCellType \<Rightarrow> HiddenCellType option"
  kGateOpenMap :: "HiddenCellType \<Rightarrow> HiddenCellType option"
  kKeyToSignal :: "HiddenCellType \<Rightarrow> u64 option"
  kGateToSignal :: "HiddenCellType \<Rightarrow> u64 option"
  IsButterfly :: "HiddenCellType \<Rightarrow> bool"
  IsFirefly :: "HiddenCellType \<Rightarrow> bool"
  IsOrange :: "HiddenCellType \<Rightarrow> bool"
  IsMagicWall :: "HiddenCellType \<Rightarrow> bool"
  IsExplosion :: "HiddenCellType \<Rightarrow> bool"
  IsKey :: "HiddenCellType \<Rightarrow> bool"
  IsOpenGate :: "HiddenCellType \<Rightarrow> bool"
  IsDirectionHorz :: "Direction \<Rightarrow> bool"

text \<open>The explosion product of an element: the idiom
  \<^verbatim>\<open>(it == kElementToExplosion.end()) ? kElExplosionEmpty : it->second\<close>.\<close>

definition explosion_product :: "util_tables \<Rightarrow> HiddenCellType \<Rightarrow> HiddenCellType" where
  "explosion_product T el =
     (case kElementToExplosion T el of None \<Rightarrow> kExplosionEmpty | Some ex \<Rightarrow> ex)"

section \<open>boulderdash_base.h: the game state\<close>

text \<open>
  The fields of \<^verbatim>\<open>class BoulderDashGameState\<close>, in the order of the header.
  \<open>explode_log\<close> is not a field of the class: it records, for each invocation of
  \<^verbatim>\<open>Explode\<close> since the last \<^verbatim>\<open>StartScan\<close>, the cell exploded and the element
  written there, so that statements about the calls made during a tick can be
  expressed. No function reads it.
\<close>

record state =
  magic_wall_steps :: int
  blob_max_size :: int
  butterfly_explosion_ver :: int
  butterfly_move_ver :: int
  gems_collected :: int
  magic_wall_steps_remaining :: int
  blob_size :: int
  rows :: int
  cols :: int
  agent_idx :: int
  gems_required :: int
  random_state :: u64
  reward_signal :: u64
  hash :: u64
  blob_chance :: "8 word"
  gravity :: bool
  disable_explosions :: bool
  magic_active :: bool
  blob_enclosed :: bool
  is_agent_alive :: bool
  is_agent_in_exit :: bool
  blob_swap :: HiddenCellType
  grid :: "HiddenCellType list"
  has_updated :: "bool list"
  explode_log :: "(int \<times> HiddenCellType) list"

text \<open>The product \<^verbatim>\<open>rows * cols\<close>, an \<^verbatim>\<open>int\<close>.\<close>

definition flat_size_of :: "state \<Rightarrow> int" where
  "flat_size_of s = wrap_int (rows s * cols s)"

section \<open>Grid primitives\<close>

fun IndexFromDirection :: "state \<Rightarrow> int \<Rightarrow> Direction \<Rightarrow> int" where
  "IndexFromDirection s index kNoop = index"
| "IndexFromDirection s index kUp = index - cols s"
| "IndexFromDirection s index kRight = index + 1"
| "IndexFromDirection s index kDown = index + cols s"
| "IndexFromDirection s index kLeft = index - 1"
| "IndexFromDirection s index kUpRight = index - cols s + 1"
| "IndexFromDirection s index kDownRight = index + cols s + 1"
| "IndexFromDirection s index kUpLeft = index - cols s - 1"
| "IndexFromDirection s index kDownLeft = index + cols s - 1"

text \<open>\<^verbatim>\<open>InBounds\<close>: \<^verbatim>\<open>%\<close> and \<^verbatim>\<open>/\<close> of C++ truncate towards zero (\<open>smod\<close>, \<open>sdiv\<close>).
  With \<open>cols = 0\<close> the source divides by zero; \<open>apply_action\<close> below checks for it
  before the first call.\<close>

definition InBounds :: "util_tables \<Rightarrow> state \<Rightarrow> int \<Rightarrow> Direction \<Rightarrow> bool" where
  "InBounds T s index direction =
     (let col = index smod cols s;
          row = (index - col) sdiv cols s;
          offsets = kDirectionOffsets T direction;
          col = col + fst offsets;
          row = row + snd offsets
      in col \<ge> 0 \<and> col < cols s \<and> row \<ge> 0 \<and> row < rows s)"

text \<open>
  Whether an index is inside the vector \<^verbatim>\<open>grid\<close>, and inside both \<^verbatim>\<open>grid\<close> and
  \<^verbatim>\<open>has_updated\<close>. An access outside is undefined behaviour in the source. The reads
  of \<^verbatim>\<open>IsType\<close> and \<^verbatim>\<open>HasProperty\<close> happen only after \<^verbatim>\<open>InBounds\<close> has succeeded, so
  \<open>GetItem\<close> is a plain function, with \<open>kNull\<close> outside the grid; every access the
  source makes without a preceding \<^verbatim>\<open>InBounds\<close> is checked with \<open>in_grid\<close> or
  \<open>in_vectors\<close> where it is made, and fails with \<open>UndefinedBehaviour\<close>.
\<close>

definition in_grid :: "state \<Rightarrow> int \<Rightarrow> bool" where
  "in_grid s i \<longleftrightarrow> 0 \<le> i \<and> i < int (length (grid s))"

definition in_vectors :: "state \<Rightarrow> int \<Rightarrow> bool" where
  "in_vectors s i \<longleftrightarrow> 0 \<le> i \<and> i < int (length (grid s)) \<and> i < int (length (has_updated s))"

definition GetItem :: "state \<Rightarrow> int \<Rightarrow> Direction \<Rightarrow> HiddenCellType" where
  "GetItem s index direction =
     (let new_index = IndexFromDirection s index direction
      in if in_grid s new_index then grid s ! nat new_index else kNull)"

definition IsType :: "util_tables \<Rightarrow> state \<Rightarrow> int \<Rightarrow> HiddenCellType \<Rightarrow> Direction \<Rightarrow> bool" where
  "IsType T s index element direction =
     (let new_index = IndexFromDirection s index direction
      in InBounds T s index direction \<and> GetItem s new_index kNoop = element)"

definition HasProperty :: "util_tables \<Rightarrow> state \<Rightarrow> int \<Rightarrow> ElementProperty \<Rightarrow> Direction \<Rightarrow> bool" where
  "HasProperty T s index property direction =
     (let new_index = IndexFromDirection s index direction
      in InBounds T s index direction \<and>
         (properties T (GetItem s new_index kNoop) AND ElementProperties T property) > 0)"

definition MoveItem :: "int \<Rightarrow> Direction \<Rightarrow> state \<Rightarrow> error + state" where
  "MoveItem index direction s =
     (let new_index = IndexFromDirection s index direction;
          flat_size = flat_size_of s
      in if \<not> (in_vectors s new_index \<and> in_grid s index) then Inl UndefinedBehaviour
         else
           let g = grid s;
               h = hash s XOR to_local_hash flat_size (g ! nat new_index) new_index;
               g = g[nat new_index := g ! nat index];
               h = h XOR to_local_hash flat_size (g ! nat new_index) new_index;
               h = h XOR to_local_hash flat_size (g ! nat index) index;
               g = g[nat index := kEmpty];
               h = h XOR to_local_hash flat_size kEmpty index
           in Inr (s\<lparr>hash := h, grid := g,
                     has_updated := (has_updated s)[nat new_index := True]\<rparr>))"

definition SetItem :: "int \<Rightarrow> HiddenCellType \<Rightarrow> Direction \<Rightarrow> state \<Rightarrow> error + state" where
  "SetItem index element direction s =
     (let new_index = IndexFromDirection s index direction;
          flat_size = flat_size_of s
      in if \<not> in_vectors s new_index then Inl UndefinedBehaviour
         else
           let g = grid s;
               h = hash s XOR to_local_hash flat_size (g ! nat new_index) new_index;
               g = g[nat new_index := element];
               h = h XOR to_local_hash flat_size element new_index
           in Inr (s\<lparr>hash := h, grid := g,
                     has_updated := (has_updated s)[nat new_index := True]\<rparr>))"

definition IsTypeAdjacent :: "util_tables \<Rightarrow> state \<Rightarrow> int \<Rightarrow> HiddenCellType \<Rightarrow> bool" where
  "IsTypeAdjacent T s index element \<longleftrightarrow>
     IsType T s index element kUp \<or> IsType T s index element kLeft \<or>
     IsType T s index element kDown \<or> IsType T s index element kRight"


section \<open>Movement helpers\<close>

definition CanRollLeft :: "util_tables \<Rightarrow> state \<Rightarrow> int \<Rightarrow> bool" where
  "CanRollLeft T s index \<longleftrightarrow>
     HasProperty T s index kRounded kDown \<and> IsType T s index kEmpty kLeft \<and>
     IsType T s index kEmpty kDownLeft"

definition CanRollRight :: "util_tables \<Rightarrow> state \<Rightarrow> int \<Rightarrow> bool" where
  "CanRollRight T s index \<longleftrightarrow>
     HasProperty T s index kRounded kDown \<and> IsType T s index kEmpty kRight \<and>
     IsType T s index kEmpty kDownRight"

definition RollLeft :: "int \<Rightarrow> HiddenCellType \<Rightarrow> state \<Rightarrow> error + state" where
  "RollLeft index element s = and_then (SetItem index element kNoop s) (MoveItem index kLeft)"

definition RollRight :: "int \<Rightarrow> HiddenCellType \<Rightarrow> state \<Rightarrow> error + state" where
  "RollRight index element s = and_then (SetItem index element kNoop s) (MoveItem index kRight)"

definition Push ::
  "util_tables \<Rightarrow> int \<Rightarrow> HiddenCellType \<Rightarrow> HiddenCellType \<Rightarrow> Direction \<Rightarrow> state \<Rightarrow> error + state"
where
  "Push T index stationary falling direction s =
     (let new_index = IndexFromDirection s index direction
      in if IsType T s new_index kEmpty direction then
           let next_index = IndexFromDirection s new_index direction;
               is_empty = IsType T s next_index kEmpty kDown
           in and_then (MoveItem new_index direction s) (\<lambda>s.
              and_then (SetItem next_index (if is_empty then falling else stationary) kNoop s) (\<lambda>s.
              and_then (MoveItem index direction s) (\<lambda>s.
              Inr (s\<lparr>agent_idx := IndexFromDirection s index direction\<rparr>))))
         else Inr s)"

definition MoveThroughMagic ::
  "util_tables \<Rightarrow> int \<Rightarrow> HiddenCellType \<Rightarrow> state \<Rightarrow> error + state"
where
  "MoveThroughMagic T index element s =
     (if magic_wall_steps s \<le> 0 then Inr s
      else
        let s = s\<lparr>magic_active := True\<rparr>;
            index_wall = IndexFromDirection s index kDown;
            index_under_wall = IndexFromDirection s index_wall kDown
        in if IsType T s index_under_wall kEmpty kNoop then
             and_then (SetItem index kEmpty kNoop s) (SetItem index_under_wall element kNoop)
           else Inr s)"

text \<open>
  \<^verbatim>\<open>Explode\<close> calls itself for every neighbour that can explode. The first argument
  of the model bounds the depth of these calls: a call at depth zero stops the run with
  \<open>OutOfFuel\<close>. The product \<open>ex\<close> is looked up for the element found at the cell
  before the cell is overwritten, and is what the loop passes on.
\<close>

fun Explode ::
  "nat \<Rightarrow> util_tables \<Rightarrow> int \<Rightarrow> HiddenCellType \<Rightarrow> Direction \<Rightarrow> state \<Rightarrow> error + state"
where
  "Explode 0 T index element direction s = Inl OutOfFuel"
| "Explode (Suc fuel) T index element direction s =
     (let new_index = IndexFromDirection s index direction
      in if \<not> in_grid s new_index then Inl UndefinedBehaviour
         else
           let ex = explosion_product T (GetItem s new_index kNoop);
               s = s\<lparr>explode_log := explode_log s @ [(new_index, element)]\<rparr>;
               s = (if GetItem s new_index kNoop = kAgent then s\<lparr>is_agent_alive := False\<rparr> else s)
           in and_then (SetItem new_index element kNoop s)
                (for_each all_directions (\<lambda>dir s.
                   if dir = kNoop \<or> \<not> InBounds T s new_index dir then Inr s
                   else if HasProperty T s new_index kCanExplode dir then
                     Explode fuel T new_index ex dir s
                   else if HasProperty T s new_index kConsumable dir then
                     and_then (SetItem new_index ex dir s) (\<lambda>s.
                       Inr (if GetItem s new_index dir = kAgent
                            then s\<lparr>is_agent_alive := False\<rparr> else s))
                   else Inr s)))"

section \<open>Element update rules\<close>

definition UpdateStoneFalling :: "nat \<Rightarrow> util_tables \<Rightarrow> int \<Rightarrow> state \<Rightarrow> error + state" where
  "UpdateStoneFalling fuel T index s =
     (if IsType T s index kEmpty kDown then MoveItem index kDown s
      else if butterfly_explosion_ver s = kConvert \<and>
              \<not> in_grid s (IndexFromDirection s index kDown) then Inl UndefinedBehaviour
      else if butterfly_explosion_ver s = kConvert \<and> IsButterfly T (GetItem s index kDown) then
        and_then (SetItem index kEmpty kNoop s) (\<lambda>s.
        and_then (SetItem index kDiamond kDown s) (\<lambda>s.
        Inr (s\<lparr>reward_signal := reward_signal s OR kRewardButterflyToDiamond\<rparr>)))
      else if HasProperty T s index kCanExplode kDown then
        Explode fuel T index (explosion_product T (GetItem s index kDown)) kDown s
      else if IsType T s index kWallMagicOn kDown \<or> IsType T s index kWallMagicDormant kDown then
        and_then (at_noexcept (kMagicWallConversion T (GetItem s index kNoop)))
          (\<lambda>element. MoveThroughMagic T index element s)
      else if IsType T s index kNut kDown then
        and_then (SetItem index kDiamond kDown s) (\<lambda>s.
        Inr (s\<lparr>reward_signal := reward_signal s OR kRewardNutToDiamond\<rparr>))
      else if IsType T s index kBomb kDown then
        Explode fuel T index (explosion_product T (GetItem s index kNoop)) kNoop s
      else if CanRollLeft T s index then RollLeft index kStoneFalling s
      else if CanRollRight T s index then RollRight index kStoneFalling s
      else SetItem index kStone kNoop s)"

definition UpdateStone :: "nat \<Rightarrow> util_tables \<Rightarrow> int \<Rightarrow> state \<Rightarrow> error + state" where
  "UpdateStone fuel T index s =
     (if \<not> gravity s then Inr s
      else if IsType T s index kEmpty kDown then
        and_then (SetItem index kStoneFalling kNoop s) (UpdateStoneFalling fuel T index)
      else if CanRollLeft T s index then RollLeft index kStoneFalling s
      else if CanRollRight T s index then RollRight index kStoneFalling s
      else Inr s)"

definition UpdateDiamondFalling :: "nat \<Rightarrow> util_tables \<Rightarrow> int \<Rightarrow> state \<Rightarrow> error + state" where
  "UpdateDiamondFalling fuel T index s =
     (if IsType T s index kEmpty kDown then MoveItem index kDown s
      else if HasProperty T s index kCanExplode kDown \<and> \<not> IsType T s index kBomb kDown \<and>
              \<not> IsType T s index kBombFalling kDown then
        Explode fuel T index (explosion_product T (GetItem s index kDown)) kDown s
      else if IsType T s index kWallMagicOn kDown \<or> IsType T s index kWallMagicDormant kDown then
        and_then (at_noexcept (kMagicWallConversion T (GetItem s index kNoop)))
          (\<lambda>element. MoveThroughMagic T index element s)
      else if CanRollLeft T s index then RollLeft index kDiamondFalling s
      else if CanRollRight T s index then RollRight index kDiamondFalling s
      else SetItem index kDiamond kNoop s)"

definition UpdateDiamond :: "nat \<Rightarrow> util_tables \<Rightarrow> int \<Rightarrow> state \<Rightarrow> error + state" where
  "UpdateDiamond fuel T index s =
     (if \<not> gravity s then Inr s
      else if IsType T s index kEmpty kDown then
        and_then (SetItem index kDiamondFalling kNoop s) (UpdateDiamondFalling fuel T index)
      else if CanRollLeft T s index then RollLeft index kDiamondFalling s
      else if CanRollRight T s index then RollRight index kDiamondFalling s
      else Inr s)"

definition UpdateNutFalling :: "util_tables \<Rightarrow> int \<Rightarrow> state \<Rightarrow> error + state" where
  "UpdateNutFalling T index s =
     (if IsType T s index kEmpty kDown then MoveItem index kDown s
      else if CanRollLeft T s index then RollLeft index kNutFalling s
      else if CanRollRight T s index then RollRight index kNutFalling s
      else SetItem index kNut kNoop s)"

definition UpdateNut :: "util_tables \<Rightarrow> int \<Rightarrow> state \<Rightarrow> error + state" where
  "UpdateNut T index s =
     (if \<not> gravity s then Inr s
      else if IsType T s index kEmpty kDown then
        and_then (SetItem index kNutFalling kNoop s) (UpdateNutFalling T index)
      else if CanRollLeft T s index then RollLeft index kNutFalling s
      else if CanRollRight T s index then RollRight index kNutFalling s
      else Inr s)"

definition UpdateBombFalling :: "nat \<Rightarrow> util_tables \<Rightarrow> int \<Rightarrow> state \<Rightarrow> error + state" where
  "UpdateBombFalling fuel T index s =
     (if IsType T s index kEmpty kDown then MoveItem index kDown s
      else if CanRollLeft T s index then RollLeft index kBombFalling s
      else if CanRollRight T s index then RollRight index kBombFalling s
      else if \<not> disable_explosions s then
        Explode fuel T index (explosion_product T (GetItem s index kNoop)) kNoop s
      else Inr s)"

definition UpdateBomb :: "nat \<Rightarrow> util_tables \<Rightarrow> int \<Rightarrow> state \<Rightarrow> error + state" where
  "UpdateBomb fuel T index s =
     (if \<not> gravity s then Inr s
      else if IsType T s index kEmpty kDown then
        and_then (SetItem index kBombFalling kNoop s) (UpdateBombFalling fuel T index)
      else if CanRollLeft T s index then RollLeft index kBomb s
      else if CanRollRight T s index then RollRight index kBomb s
      else Inr s)"

definition UpdateExit :: "int \<Rightarrow> state \<Rightarrow> error + state" where
  "UpdateExit index s =
     (if gems_collected s \<ge> gems_required s then SetItem index kExitOpen kNoop s else Inr s)"


text \<open>\<^verbatim>\<open>OpenGate\<close>: the loop reads \<^verbatim>\<open>grid[index]\<close> for every index below
  \<open>rows * cols\<close>.\<close>

definition flat_indices :: "state \<Rightarrow> int list" where
  "flat_indices s = map int [0..<nat (flat_size_of s)]"

definition OpenGate :: "util_tables \<Rightarrow> HiddenCellType \<Rightarrow> state \<Rightarrow> error + state" where
  "OpenGate T element s =
     for_each (flat_indices s) (\<lambda>index s.
       if \<not> in_grid s index then Inl UndefinedBehaviour
       else if grid s ! nat index = element then
         and_then (at_noexcept (kGateOpenMap T (GetItem s index kNoop)))
           (\<lambda>gate. SetItem index gate kNoop s)
       else Inr s) s"

definition UpdateAgent :: "util_tables \<Rightarrow> int \<Rightarrow> Direction \<Rightarrow> state \<Rightarrow> error + state" where
  "UpdateAgent T index direction s =
     (if \<not> InBounds T s index direction then Inr s
      else if IsType T s index kEmpty direction \<or> IsType T s index kDirt direction then
        and_then (MoveItem index direction s) (\<lambda>s.
        Inr (s\<lparr>agent_idx := IndexFromDirection s index direction\<rparr>))
      else if IsType T s index kDiamond direction \<or> IsType T s index kDiamondFalling direction then
        (let s = s\<lparr>gems_collected := gems_collected s + 1\<rparr>;
             s = s\<lparr>reward_signal := reward_signal s OR kRewardCollectDiamond\<rparr>
         in and_then (MoveItem index direction s) (\<lambda>s.
            Inr (s\<lparr>agent_idx := IndexFromDirection s index direction\<rparr>)))
      else if IsDirectionHorz T direction \<and> HasProperty T s index kPushable direction then
        and_then (at_noexcept (kElToFalling T (GetItem s index direction))) (\<lambda>falling.
          Push T index (GetItem s index direction) falling direction s)
      else if IsKey T (GetItem s index direction) then
        (let key_type = GetItem s index direction
         in and_then (at_noexcept (kKeyToGate T key_type)) (\<lambda>gate.
            and_then (OpenGate T gate s) (\<lambda>s.
            and_then (MoveItem index direction s) (\<lambda>s.
            let s = s\<lparr>agent_idx := IndexFromDirection s index direction\<rparr>;
                s = s\<lparr>reward_signal := reward_signal s OR kRewardCollectKey\<rparr>
            in and_then (at_noexcept (kKeyToSignal T key_type)) (\<lambda>signal.
               Inr (s\<lparr>reward_signal := reward_signal s OR signal\<rparr>))))))
      else if IsOpenGate T (GetItem s index direction) then
        (let index_gate = IndexFromDirection s index direction
         in if HasProperty T s index_gate kTraversable direction then
              and_then
                (if IsType T s index_gate kDiamond direction \<or>
                    IsType T s index_gate kDiamondFalling direction then
                   (let s = s\<lparr>gems_collected := gems_collected s + 1\<rparr>
                    in Inr (s\<lparr>reward_signal := reward_signal s OR kRewardCollectDiamond\<rparr>))
                 else if IsKey T (GetItem s index_gate direction) then
                   (let key_type = GetItem s index_gate direction
                    in and_then (at_noexcept (kKeyToGate T key_type)) (\<lambda>gate.
                       and_then (OpenGate T gate s) (\<lambda>s.
                       let s = s\<lparr>reward_signal := reward_signal s OR kRewardCollectKey\<rparr>
                       in and_then (at_noexcept (kKeyToSignal T key_type)) (\<lambda>signal.
                          Inr (s\<lparr>reward_signal := reward_signal s OR signal\<rparr>)))))
                 else Inr s)
                (\<lambda>s.
                and_then (SetItem index_gate kAgent direction s) (\<lambda>s.
                and_then (SetItem index kEmpty kNoop s) (\<lambda>s.
                let s = s\<lparr>agent_idx := IndexFromDirection s index_gate direction\<rparr>;
                    s = s\<lparr>reward_signal := reward_signal s OR kRewardWalkThroughGate\<rparr>
                in and_then (at_noexcept (kGateToSignal T (GetItem s index_gate kNoop))) (\<lambda>signal.
                   Inr (s\<lparr>reward_signal := reward_signal s OR signal\<rparr>)))))
            else Inr s)
      else if IsType T s index kExitOpen direction then
        and_then (MoveItem index direction s) (\<lambda>s.
        and_then (SetItem index kAgentInExit direction s) (\<lambda>s.
        let s = s\<lparr>agent_idx := IndexFromDirection s index direction\<rparr>;
            s = s\<lparr>is_agent_in_exit := True\<rparr>
        in Inr (s\<lparr>reward_signal := reward_signal s OR kRewardWalkThroughExit\<rparr>)))
      else Inr s)"

definition UpdateFirefly ::
  "nat \<Rightarrow> util_tables \<Rightarrow> int \<Rightarrow> Direction \<Rightarrow> state \<Rightarrow> error + state"
where
  "UpdateFirefly fuel T index direction s =
     (let new_dir = kRotateLeft T direction
      in if IsTypeAdjacent T s index kAgent \<or> IsTypeAdjacent T s index kBlob then
           Explode fuel T index (explosion_product T (GetItem s index kNoop)) kNoop s
         else if IsType T s index kEmpty new_dir then
           and_then (SetItem index (kDirectionToFirefly T new_dir) kNoop s) (MoveItem index new_dir)
         else if IsType T s index kEmpty direction then
           and_then (SetItem index (kDirectionToFirefly T direction) kNoop s) (MoveItem index direction)
         else SetItem index (kDirectionToFirefly T (kRotateRight T direction)) kNoop s)"

text \<open>In the last branch of \<^verbatim>\<open>UpdateButterfly\<close> the move of the instant version is made
  without a test of the target cell.\<close>

definition UpdateButterfly ::
  "nat \<Rightarrow> util_tables \<Rightarrow> int \<Rightarrow> Direction \<Rightarrow> state \<Rightarrow> error + state"
where
  "UpdateButterfly fuel T index direction s =
     (let new_dir = kRotateRight T direction
      in if IsTypeAdjacent T s index kAgent \<or> IsTypeAdjacent T s index kBlob then
           Explode fuel T index (explosion_product T (GetItem s index kNoop)) kNoop s
         else if IsType T s index kEmpty new_dir then
           and_then (SetItem index (kDirectionToButterfly T new_dir) kNoop s) (MoveItem index new_dir)
         else if IsType T s index kEmpty direction then
           and_then (SetItem index (kDirectionToButterfly T direction) kNoop s)
             (MoveItem index direction)
         else
           and_then (SetItem index (kDirectionToButterfly T (kRotateLeft T direction)) kNoop s) (\<lambda>s.
             if butterfly_move_ver s = kInstant then
               (let new_dir = kRotateLeft T direction in MoveItem index new_dir s)
             else Inr s))"

text \<open>\<^verbatim>\<open>UpdateOrange\<close>: the loop over the four actions collects the open directions;
  the random number is drawn only when there is one.\<close>

definition UpdateOrange ::
  "nat \<Rightarrow> util_tables \<Rightarrow> int \<Rightarrow> Direction \<Rightarrow> state \<Rightarrow> error + state"
where
  "UpdateOrange fuel T index direction s =
     (if IsType T s index kEmpty direction then MoveItem index direction s
      else if IsTypeAdjacent T s index kAgent then
        Explode fuel T index (explosion_product T (GetItem s index kNoop)) kNoop s
      else
        let open_dirs = filter (\<lambda>dir. \<not> (dir = kNoop \<or> \<not> InBounds T s index dir) \<and>
                                       IsType T s index kEmpty dir)
                          (take kNumActions all_directions)
        in if open_dirs \<noteq> [] then
             let r = xorshift64 (random_state s);
                 s = s\<lparr>random_state := r\<rparr>;
                 new_dir = open_dirs ! nat (uint r mod int (length open_dirs))
             in SetItem index (kDirectionToOrange T new_dir) kNoop s
           else Inr s)"

definition UpdateMagicWall :: "int \<Rightarrow> state \<Rightarrow> error + state" where
  "UpdateMagicWall index s =
     (if magic_active s then SetItem index kWallMagicOn kNoop s
      else if magic_wall_steps s > 0 then SetItem index kWallMagicDormant kNoop s
      else SetItem index kWallMagicExpired kNoop s)"

definition BASE_CHANCE :: int where
  "BASE_CHANCE = 256"

definition UpdateBlob :: "util_tables \<Rightarrow> int \<Rightarrow> state \<Rightarrow> error + state" where
  "UpdateBlob T index s =
     (if blob_swap s \<noteq> kNull then SetItem index (blob_swap s) kNoop s
      else
        let s = s\<lparr>blob_size := blob_size s + 1\<rparr>;
            s = (if IsTypeAdjacent T s index kEmpty \<or> IsTypeAdjacent T s index kDirt
                 then s\<lparr>blob_enclosed := False\<rparr> else s);
            r1 = xorshift64 (random_state s);
            will_grow = (uint r1 mod BASE_CHANCE < uint (blob_chance s));
            r2 = xorshift64 r1;
            s = s\<lparr>random_state := r2\<rparr>;
            grow_dir = all_directions ! nat (uint r2 mod int kNumActions)
        in if will_grow \<and> (IsType T s index kEmpty grow_dir \<or> IsType T s index kDirt grow_dir)
           then SetItem index kBlob grow_dir s
           else Inr s)"

definition UpdateExplosions :: "util_tables \<Rightarrow> int \<Rightarrow> state \<Rightarrow> error + state" where
  "UpdateExplosions T index s =
     and_then (at_noexcept (kExplosionToReward T (GetItem s index kNoop))) (\<lambda>reward.
       let s = s\<lparr>reward_signal := reward_signal s OR reward\<rparr>
       in and_then (at_noexcept (kExplosionToElement T (GetItem s index kNoop))) (\<lambda>element.
            SetItem index element kNoop s))"

section \<open>The tick\<close>

text \<open>\<^verbatim>\<open>StartScan\<close> writes \<^verbatim>\<open>has_updated[i]\<close> for every \<open>i\<close> below \<open>rows * cols\<close>.\<close>

definition StartScan :: "state \<Rightarrow> error + state" where
  "StartScan s =
     (let n = nat (flat_size_of s)
      in if n > length (has_updated s) then Inl UndefinedBehaviour
         else Inr (s\<lparr>blob_size := 0, blob_enclosed := True, reward_signal := 0,
                   has_updated := replicate n False @ drop n (has_updated s),
                   explode_log := []\<rparr>))"

definition EndScan :: "state \<Rightarrow> state" where
  "EndScan s =
     (let s = (if blob_swap s = kNull then
                 let s = (if blob_enclosed s then s\<lparr>blob_swap := kDiamond\<rparr> else s)
                 in if blob_size s > blob_max_size s then s\<lparr>blob_swap := kStone\<rparr> else s
               else s);
          s = (if magic_active s
               then s\<lparr>magic_wall_steps := max (magic_wall_steps s - 1) 0\<rparr> else s)
      in s\<lparr>magic_active := (magic_active s \<and> magic_wall_steps s > 0)\<rparr>)"

text \<open>\<^verbatim>\<open>.at\<close> in \<^verbatim>\<open>apply_action\<close>, which is not \<^verbatim>\<open>noexcept\<close>: the exception reaches the
  caller.\<close>

definition at_throw :: "'a option \<Rightarrow> error + 'a" where
  "at_throw v = (case v of None \<Rightarrow> Inl OutOfRange | Some x \<Rightarrow> Inr x)"

text \<open>The body of the scan loop of \<^verbatim>\<open>apply_action\<close> for one index.\<close>

definition update_cell :: "nat \<Rightarrow> util_tables \<Rightarrow> int \<Rightarrow> state \<Rightarrow> error + state" where
  "update_cell fuel T i s =
     (if \<not> (0 \<le> i \<and> i < int (length (has_updated s))) then Inl UndefinedBehaviour
      else if has_updated s ! nat i then Inr s
      else if \<not> in_grid s i then Inl UndefinedBehaviour
      else
        let hidden_el = grid s ! nat i
        in if hidden_el = kStone then UpdateStone fuel T i s
           else if hidden_el = kStoneFalling then UpdateStoneFalling fuel T i s
           else if hidden_el = kDiamond then UpdateDiamond fuel T i s
           else if hidden_el = kDiamondFalling then UpdateDiamondFalling fuel T i s
           else if hidden_el = kNut then UpdateNut T i s
           else if hidden_el = kNutFalling then UpdateNutFalling T i s
           else if hidden_el = kBomb then UpdateBomb fuel T i s
           else if hidden_el = kBombFalling then UpdateBombFalling fuel T i s
           else if hidden_el = kExitClosed then UpdateExit i s
           else if hidden_el = kBlob then UpdateBlob T i s
           else
             let element = hidden_el
             in if IsButterfly T element then
                  and_then (at_throw (kButterflyToDirection T element))
                    (\<lambda>d. UpdateButterfly fuel T i d s)
                else if IsFirefly T element then
                  and_then (at_throw (kFireflyToDirection T element))
                    (\<lambda>d. UpdateFirefly fuel T i d s)
                else if IsOrange T element then
                  and_then (at_throw (kOrangeToDirection T element))
                    (\<lambda>d. UpdateOrange fuel T i d s)
                else if IsMagicWall T element then UpdateMagicWall i s
                else if IsExplosion T element then UpdateExplosions T i s
                else Inr s)"

text \<open>\<^verbatim>\<open>apply_action\<close>. The assertion \<^verbatim>\<open>is_valid_action(action)\<close> holds of every value
  of the type \<open>Action\<close>. The first statement of \<^verbatim>\<open>UpdateAgent\<close> evaluates
  \<^verbatim>\<open>index % cols\<close>, which is undefined for \<open>cols = 0\<close>.\<close>

definition apply_action :: "nat \<Rightarrow> util_tables \<Rightarrow> Action \<Rightarrow> state \<Rightarrow> error + state" where
  "apply_action fuel T action s =
     and_then (StartScan s) (\<lambda>s.
       if cols s = 0 then Inl UndefinedBehaviour
       else
         let action_direction = action_to_direction action
         in and_then (UpdateAgent T (agent_idx s) action_direction s) (\<lambda>s.
            and_then (for_each (flat_indices s) (update_cell fuel T) s) (\<lambda>s.
            Inr (EndScan s))))"


section \<open>Construction from a level string\<close>

text \<open>The loop \<^verbatim>\<open>while (std::getline(board_ss, segment, '|'))\<close>: a segment ends at a
  bar or at the end of the string, and an empty segment at the end of the string is not
  produced.\<close>

fun getlines :: "string \<Rightarrow> string \<Rightarrow> string list" where
  "getlines segment [] = (if segment = [] then [] else [segment])"
| "getlines segment (c # cs) =
     (if c = CHR ''|'' then segment # getlines [] cs else getlines (segment @ [c]) cs)"

text \<open>\<^verbatim>\<open>std::stoi\<close>: leading white space is skipped, a sign is accepted, the longest
  run of decimal digits is read and what follows is ignored; with no digit it throws
  \<^verbatim>\<open>std::invalid_argument\<close>, with a value outside \<^verbatim>\<open>int\<close> it throws
  \<^verbatim>\<open>std::out_of_range\<close>.\<close>

definition isspace :: "char \<Rightarrow> bool" where
  "isspace c \<longleftrightarrow> c = CHR '' '' \<or> (9 \<le> (of_char c :: nat) \<and> (of_char c :: nat) \<le> 13)"

definition isdigit :: "char \<Rightarrow> bool" where
  "isdigit c \<longleftrightarrow> 48 \<le> (of_char c :: nat) \<and> (of_char c :: nat) \<le> 57"

definition digits_value :: "string \<Rightarrow> int" where
  "digits_value ds = foldl (\<lambda>v c. 10 * v + (int (of_char c) - 48)) 0 ds"

definition stoi :: "string \<Rightarrow> error + int" where
  "stoi str =
     (let str = dropWhile isspace str;
          negative = (str \<noteq> [] \<and> hd str = CHR ''-'');
          str = (if str \<noteq> [] \<and> (hd str = CHR ''-'' \<or> hd str = CHR ''+'') then tl str else str);
          ds = takeWhile isdigit str;
          v = (if negative then - digits_value ds else digits_value ds)
      in if ds = [] then Inl (InvalidArgument ''stoi'')
         else if v < - (2 ^ 31) \<or> v > 2 ^ 31 - 1 then Inl OutOfRange
         else Inr v)"

text \<open>The decimal form of an integer, for \<^verbatim>\<open>std::format("{:d}", ...)\<close>.\<close>

function format_nat :: "nat \<Rightarrow> string" where
  "format_nat n =
     (if n < 10 then [char_of (48 + n)] else format_nat (n div 10) @ [char_of (48 + n mod 10)])"
  by pat_completeness auto
termination
  by (relation "measure id") auto

definition format_d :: "int \<Rightarrow> string" where
  "format_d v = (if v < 0 then CHR ''-'' # format_nat (nat (- v)) else format_nat (nat v))"

text \<open>The body of the loop over the cell tokens: the state and the agent counter.\<close>

definition parse_cell :: "nat \<Rightarrow> string \<Rightarrow> state \<times> nat \<Rightarrow> error + state \<times> nat" where
  "parse_cell i segment sc =
     (let s = fst sc; agent_counter = snd sc
      in and_then (stoi segment) (\<lambda>hidden_type.
         if hidden_type < 0 \<or> hidden_type \<ge> kNumHiddenCellType then
           Inl (InvalidArgument (''Unknown element type: '' @ format_d hidden_type))
         else
           let el = hidden_cell_types ! nat hidden_type;
               s = s\<lparr>grid := grid s @ [el], has_updated := has_updated s @ [False]\<rparr>
           in if el = kAgent \<or> el = kAgentInExit then
                Inr (s\<lparr>agent_idx := int i - 3, is_agent_alive := True,
                       is_agent_in_exit := (el = kAgentInExit)\<rparr>, agent_counter + 1)
              else Inr (s, agent_counter)))"

text \<open>
  \<^verbatim>\<open>parse_board_str\<close>. The first argument says whether the build has assertions
  (\<^verbatim>\<open>NDEBUG\<close> not defined): the two \<^verbatim>\<open>assert\<close>s are the only checks of the number of
  tokens, and a build without assertions does not make them. The comparison of the
  second one is made in \<^verbatim>\<open>std::size_t\<close>, modulo \<open>2 ^ 64\<close>, on the 32-bit product.
\<close>

definition parse_board_str :: "bool \<Rightarrow> string \<Rightarrow> state \<Rightarrow> error + state" where
  "parse_board_str assertions board_str s =
     (let seglist = getlines [] board_str
      in if assertions \<and> \<not> length seglist \<ge> 4 then Inl AssertionFailed
         else if length seglist < 1 then Inl UndefinedBehaviour
         else
           and_then (stoi (seglist ! 0)) (\<lambda>r.
           if length seglist < 2 then Inl UndefinedBehaviour
           else
           and_then (stoi (seglist ! 1)) (\<lambda>c.
           let s = s\<lparr>rows := r, cols := c\<rparr>
           in if assertions \<and> int (length seglist) \<noteq> (wrap_int (r * c) mod 2 ^ 64 + 3) mod 2 ^ 64
              then Inl AssertionFailed
              else if length seglist < 3 then Inl UndefinedBehaviour
              else
                and_then (stoi (seglist ! 2)) (\<lambda>g.
                let s = s\<lparr>gems_required := g\<rparr>
                in and_then
                     (for_each [3..<length seglist] (\<lambda>i. parse_cell i (seglist ! i)) (s, 0))
                     (\<lambda>sc.
                        if snd sc = 0 then Inl (InvalidArgument ''Agent element not found'')
                        else if snd sc > 1 then
                          Inl (InvalidArgument ''Too many agent elements, expected only one'')
                        else Inr (fst sc))))))"

text \<open>\<^verbatim>\<open>struct GameParameters\<close>. The percentage is a \<^verbatim>\<open>float\<close>; its type is left
  open.\<close>

record 'f GameParameters =
  param_gravity :: bool
  param_magic_wall_steps :: int
  param_blob_chance :: int
  param_blob_max_percentage :: 'f
  param_disable_explosions :: bool
  param_butterfly_explosion_ver :: int
  param_butterfly_move_ver :: int

text \<open>The members as the constructor's initialiser list and the default member
  initialisers leave them, before \<^verbatim>\<open>parse_board_str\<close> runs. \<^verbatim>\<open>blob_max_size\<close> is the
  one member with neither: it holds whatever the memory held, the first argument, until
  the body of the constructor assigns it.\<close>

definition initial_members :: "int \<Rightarrow> 'f GameParameters \<Rightarrow> state" where
  "initial_members uninitialised params =
     \<lparr>magic_wall_steps = param_magic_wall_steps params,
      blob_max_size = uninitialised,
      butterfly_explosion_ver = param_butterfly_explosion_ver params,
      butterfly_move_ver = param_butterfly_move_ver params,
      gems_collected = 0,
      magic_wall_steps_remaining = 0,
      blob_size = 0,
      rows = -1,
      cols = -1,
      agent_idx = -1,
      gems_required = 0,
      random_state = splitmix64 0,
      reward_signal = 0,
      hash = 0,
      blob_chance = word_of_int (param_blob_chance params),
      gravity = param_gravity params,
      disable_explosions = param_disable_explosions params,
      magic_active = False,
      blob_enclosed = True,
      is_agent_alive = False,
      is_agent_in_exit = False,
      blob_swap = kNull,
      grid = [],
      has_updated = [],
      explode_log = []\<rparr>"

text \<open>
  The constructor \<^verbatim>\<open>BoulderDashGameState(board_str, params)\<close>. The argument
  \<open>float_product\<close> stands for
  \<^verbatim>\<open>static_cast<int>(static_cast<float>(cols * rows) * params.blob_max_percentage)\<close>,
  a floating point computation that is not modelled, and \<open>uninitialised\<close> for the
  value of the member that has no initialiser. The hash loop reads \<^verbatim>\<open>grid[i]\<close> for every \<open>i\<close> below \<open>rows * cols\<close>.
\<close>

definition BoulderDashGameState ::
  "(int \<Rightarrow> 'f \<Rightarrow> int) \<Rightarrow> bool \<Rightarrow> int \<Rightarrow> string \<Rightarrow> 'f GameParameters \<Rightarrow> error + state"
where
  "BoulderDashGameState float_product assertions uninitialised board_str params =
     and_then (parse_board_str assertions board_str (initial_members uninitialised params)) (\<lambda>s.
       let s = s\<lparr>blob_max_size :=
                    float_product (wrap_int (cols s * rows s)) (param_blob_max_percentage params)\<rparr>;
           flat_size = flat_size_of s
       in for_each (flat_indices s) (\<lambda>i s.
            if \<not> in_grid s i then Inl UndefinedBehaviour
            else Inr (s\<lparr>hash := hash s XOR to_local_hash flat_size (grid s ! nat i) i\<rparr>)) s)"


section \<open>Tables for the examples\<close>

text \<open>
  Modelled from the spec: the contents of the tables of \<^verbatim>\<open>util.h\<close>, which is not among
  the sources, as far as the spec states them (sections 4.A, 4.E, 4.F, 4.G, 8 and the
  glossary). They are used for the concrete examples only.
  \<^item> Property bits: one bit per flag, in the order the spec lists the flags.
  \<^item> \<open>Pushable\<close>: stone, nut, bomb. \<open>Traversable\<close>: empty, dirt, diamond (resting and
    falling), the keys, the open exit. \<open>CanExplode\<close>: the agent (a falling stone
    explodes it) and the butterflies (under the exploding version a stone that falls on
    one "falls through to the general explosion"). \<open>Consumable\<close>: the agent, empty,
    dirt and the bomb (an explosion overwrites them). The spec names no rounded kind.
  \<^item> Direction offsets are (column, row) offsets; they agree with
    \<open>IndexFromDirection\<close>.
  \<^item> Butterflies leave \<open>kExplosionDiamond\<close>; every other kind has no entry and leaves
    the default.
  \<^item> The scan dispatches the dormant and the active magic wall to the magic wall rule.
\<close>

definition spec_properties :: "HiddenCellType \<Rightarrow> ElementProperty list" where
  "spec_properties k =
     (if k = kAgent then [kCanExplode, kConsumable]
      else if k \<in> {kEmpty, kDirt} then [kConsumable, kTraversable]
      else if k \<in> {kStone, kNut} then [kPushable]
      else if k = kBomb then [kPushable, kConsumable]
      else if k \<in> {kDiamond, kDiamondFalling, kKeyRed, kKeyBlue, kKeyGreen, kKeyYellow, kExitOpen}
        then [kTraversable]
      else if k \<in> {kButterflyUp, kButterflyLeft, kButterflyDown, kButterflyRight}
        then [kCanExplode]
      else [])"

fun spec_property_bit :: "ElementProperty \<Rightarrow> int" where
  "spec_property_bit kRounded = 1"
| "spec_property_bit kPushable = 2"
| "spec_property_bit kCanExplode = 4"
| "spec_property_bit kConsumable = 8"
| "spec_property_bit kTraversable = 16"

fun spec_offsets :: "Direction \<Rightarrow> int \<times> int" where
  "spec_offsets kUp = (0, -1)"
| "spec_offsets kRight = (1, 0)"
| "spec_offsets kDown = (0, 1)"
| "spec_offsets kLeft = (-1, 0)"
| "spec_offsets kNoop = (0, 0)"
| "spec_offsets kUpRight = (1, -1)"
| "spec_offsets kDownRight = (1, 1)"
| "spec_offsets kDownLeft = (-1, 1)"
| "spec_offsets kUpLeft = (-1, -1)"

fun spec_rotate_left :: "Direction \<Rightarrow> Direction" where
  "spec_rotate_left kUp = kLeft"
| "spec_rotate_left kLeft = kDown"
| "spec_rotate_left kDown = kRight"
| "spec_rotate_left kRight = kUp"
| "spec_rotate_left d = d"

fun spec_rotate_right :: "Direction \<Rightarrow> Direction" where
  "spec_rotate_right kUp = kRight"
| "spec_rotate_right kRight = kDown"
| "spec_rotate_right kDown = kLeft"
| "spec_rotate_right kLeft = kUp"
| "spec_rotate_right d = d"

definition spec_tables :: util_tables where
  "spec_tables =
     \<lparr>properties = (\<lambda>k. sum_list (map spec_property_bit (spec_properties k))),
      ElementProperties = spec_property_bit,
      kDirectionOffsets = spec_offsets,
      kRotateLeft = spec_rotate_left,
      kRotateRight = spec_rotate_right,
      kDirectionToFirefly =
        (\<lambda>d. case d of kUp \<Rightarrow> kFireflyUp | kLeft \<Rightarrow> kFireflyLeft | kDown \<Rightarrow> kFireflyDown
               | kRight \<Rightarrow> kFireflyRight | _ \<Rightarrow> kNull),
      kDirectionToButterfly =
        (\<lambda>d. case d of kUp \<Rightarrow> kButterflyUp | kLeft \<Rightarrow> kButterflyLeft
               | kDown \<Rightarrow> kButterflyDown | kRight \<Rightarrow> kButterflyRight | _ \<Rightarrow> kNull),
      kDirectionToOrange =
        (\<lambda>d. case d of kUp \<Rightarrow> kOrangeUp | kLeft \<Rightarrow> kOrangeLeft | kDown \<Rightarrow> kOrangeDown
               | kRight \<Rightarrow> kOrangeRight | _ \<Rightarrow> kNull),
      kFireflyToDirection =
        [kFireflyUp \<mapsto> kUp, kFireflyLeft \<mapsto> kLeft, kFireflyDown \<mapsto> kDown,
         kFireflyRight \<mapsto> kRight],
      kButterflyToDirection =
        [kButterflyUp \<mapsto> kUp, kButterflyLeft \<mapsto> kLeft, kButterflyDown \<mapsto> kDown,
         kButterflyRight \<mapsto> kRight],
      kOrangeToDirection =
        [kOrangeUp \<mapsto> kUp, kOrangeLeft \<mapsto> kLeft, kOrangeDown \<mapsto> kDown,
         kOrangeRight \<mapsto> kRight],
      kElementToExplosion =
        [kButterflyUp \<mapsto> kExplosionDiamond, kButterflyLeft \<mapsto> kExplosionDiamond,
         kButterflyDown \<mapsto> kExplosionDiamond, kButterflyRight \<mapsto> kExplosionDiamond],
      kExplosionToElement =
        [kExplosionDiamond \<mapsto> kDiamond, kExplosionBoulder \<mapsto> kStone,
         kExplosionEmpty \<mapsto> kEmpty],
      kExplosionToReward =
        [kExplosionDiamond \<mapsto> kRewardButterflyToDiamond, kExplosionBoulder \<mapsto> kRewardNone,
         kExplosionEmpty \<mapsto> kRewardNone],
      kMagicWallConversion =
        [kStone \<mapsto> kDiamond, kDiamond \<mapsto> kStone, kNut \<mapsto> kNut,
         kStoneFalling \<mapsto> kDiamondFalling, kDiamondFalling \<mapsto> kStoneFalling],
      kElToFalling =
        [kStone \<mapsto> kStoneFalling, kDiamond \<mapsto> kDiamondFalling, kNut \<mapsto> kNutFalling,
         kBomb \<mapsto> kBombFalling],
      kKeyToGate =
        [kKeyRed \<mapsto> kGateRedClosed, kKeyBlue \<mapsto> kGateBlueClosed,
         kKeyGreen \<mapsto> kGateGreenClosed, kKeyYellow \<mapsto> kGateYellowClosed],
      kGateOpenMap =
        [kGateRedClosed \<mapsto> kGateRedOpen, kGateBlueClosed \<mapsto> kGateBlueOpen,
         kGateGreenClosed \<mapsto> kGateGreenOpen, kGateYellowClosed \<mapsto> kGateYellowOpen],
      kKeyToSignal =
        [kKeyRed \<mapsto> kRewardCollectKeyRed, kKeyBlue \<mapsto> kRewardCollectKeyBlue,
         kKeyGreen \<mapsto> kRewardCollectKeyGreen, kKeyYellow \<mapsto> kRewardCollectKeyYellow],
      kGateToSignal =
        [kGateRedOpen \<mapsto> kRewardWalkThroughGateRed, kGateBlueOpen \<mapsto> kRewardWalkThroughGateBlue,
         kGateGreenOpen \<mapsto> kRewardWalkThroughGateGreen,
         kGateYellowOpen \<mapsto> kRewardWalkThroughGateYellow],
      IsButterfly = (\<lambda>k. k \<in> {kButterflyUp, kButterflyLeft, kButterflyDown, kButterflyRight}),
      IsFirefly = (\<lambda>k. k \<in> {kFireflyUp, kFireflyLeft, kFireflyDown, kFireflyRight}),
      IsOrange = (\<lambda>k. k \<in> {kOrangeUp, kOrangeLeft, kOrangeDown, kOrangeRight}),
      IsMagicWall = (\<lambda>k. k \<in> {kWallMagicDormant, kWallMagicOn}),
      IsExplosion = (\<lambda>k. k \<in> {kExplosionDiamond, kExplosionBoulder, kExplosionEmpty}),
      IsKey = (\<lambda>k. k \<in> {kKeyRed, kKeyBlue, kKeyGreen, kKeyYellow}),
      IsOpenGate = (\<lambda>k. k \<in> {kGateRedOpen, kGateBlueOpen, kGateGreenOpen, kGateYellowOpen}),
      IsDirectionHorz = (\<lambda>d. d = kLeft \<or> d = kRight)\<rparr>"

text \<open>The default parameters of boulderdash_base.h, the percentage as a fraction
  in hundredths, and the product rounded down.\<close>

definition default_parameters :: "nat GameParameters" where
  "default_parameters =
     \<lparr>param_gravity = False, param_magic_wall_steps = 140, param_blob_chance = 20,
      param_blob_max_percentage = 16, param_disable_explosions = False,
      param_butterfly_explosion_ver = kExplode, param_butterfly_move_ver = kDelay\<rparr>"

definition hundredths :: "int \<Rightarrow> nat \<Rightarrow> int" where
  "hundredths n p = (n * int p) div 100"


section \<open>Example boards\<close>

text \<open>A state written out: the fields that differ between the examples, the others as
  the constructor leaves them with the default parameters.\<close>

definition example_state ::
  "int \<Rightarrow> int \<Rightarrow> int \<Rightarrow> int \<Rightarrow> u64 \<Rightarrow> u64 \<Rightarrow> bool \<Rightarrow> HiddenCellType \<Rightarrow>
   HiddenCellType list \<Rightarrow> bool list \<Rightarrow> (int \<times> HiddenCellType) list \<Rightarrow> state"
where
  "example_state r c bmax idx reward h alive swap g upd log =
     \<lparr>magic_wall_steps = 140, blob_max_size = bmax, butterfly_explosion_ver = 1,
      butterfly_move_ver = 1, gems_collected = 0, magic_wall_steps_remaining = 0,
      blob_size = 0, rows = r, cols = c, agent_idx = idx, gems_required = 0,
      random_state = 16294208416658607535, reward_signal = reward, hash = h,
      blob_chance = 20, gravity = False, disable_explosions = False, magic_active = False,
      blob_enclosed = True, is_agent_alive = alive, is_agent_in_exit = False,
      blob_swap = swap, grid = g, has_updated = upd, explode_log = log\<rparr>"



text \<open>A falling stone on a nut, the agent below: the level string \<open>3|1|0|4|39|0\<close>, and
  the state one tick later.\<close>

definition nut_start :: state where
  "nut_start =
     example_state 3 1 0 2 0 8098192886941465596 True kNull
       [kStoneFalling, kNut, kAgent] [False, False, False] []"

definition nut_after :: state where
  "nut_after =
     example_state 3 1 0 2 8 6811213942287649738 True kDiamond
       [kStoneFalling, kDiamond, kAgent] [False, True, False] []"

text \<open>A butterfly beside the agent, an empty cell on the other side: the level string
  \<open>1|3|0|14|0|1\<close>, and the states after one, two and three ticks (up, up, right).\<close>

definition butterfly_start :: state where
  "butterfly_start =
     example_state 1 3 0 1 0 5755077806738436366 True kNull
       [kButterflyUp, kAgent, kEmpty] [False, False, False] []"

definition butterfly_exploded :: state where
  "butterfly_exploded =
     example_state 1 3 0 1 0 16390075507704170410 False kDiamond
       [kExplosionDiamond, kExplosionDiamond, kExplosionEmpty] [True, True, True]
       [(0, kExplosionDiamond), (1, kExplosionDiamond)]"

definition butterfly_settled :: state where
  "butterfly_settled =
     example_state 1 3 0 1 16 13382779271648051544 False kDiamond
       [kDiamond, kDiamond, kEmpty] [True, True, True] []"

definition butterfly_moved :: state where
  "butterfly_moved =
     example_state 1 3 0 2 0 7614467140495976876 False kDiamond
       [kDiamond, kEmpty, kDiamond] [False, False, True] []"


section \<open>Runs\<close>







section \<open>Validity predicate of the public interface\<close>

text \<open>
  C10. \<^verbatim>\<open>is_valid_hidden_element(e)\<close> holds exactly when the ordinal of \<open>e\<close> lies in
  \<open>[0, kNumVisibleCellType) = [0, 34)\<close>. The cell kinds of a level string that it
  rejects are therefore the sixteen kinds with ordinals 34 to 49, among them
  \<open>kKeyYellow\<close>, \<open>kNut\<close>, \<open>kNutFalling\<close>, \<open>kBomb\<close>, \<open>kBombFalling\<close>, the four
  orange variants, \<open>kPebbleInDirt\<close>, \<open>kStoneInDirt\<close> and \<open>kVoidInDirt\<close>.
\<close>

theorem is_valid_hidden_element_visible_bound:
  "is_valid_hidden_element e = (to_underlying e \<in> {0..<34})
   \<and> filter (\<lambda>k. \<not> is_valid_hidden_element k) hidden_cell_types =
       [kGateGreenOpen, kKeyGreen, kGateYellowClosed, kGateYellowOpen,
        kKeyYellow, kNut, kNutFalling, kBomb, kBombFalling,
        kOrangeUp, kOrangeLeft, kOrangeDown, kOrangeRight,
        kPebbleInDirt, kStoneInDirt, kVoidInDirt]
   \<and> map to_underlying (filter (\<lambda>k. \<not> is_valid_hidden_element k) hidden_cell_types) =
       [34, 35, 36, 37, 38, 39, 40, 41, 42, 43, 44, 45, 46, 47, 48, 49]"
  by (auto simp: is_valid_hidden_element_def kNumVisibleCellType_def hidden_cell_types_def)

section \<open>Sequencing and loops\<close>




section \<open>The example boards, evaluated\<close>



lemma nut_constructed:
  "BoulderDashGameState hundredths True 0 ''3|1|0|4|39|0'' default_parameters = Inr nut_start"
  by code_simp

lemma nut_tick: "apply_action 9 spec_tables kActionRight nut_start = Inr nut_after"
  by code_simp

lemma butterfly_constructed:
  "BoulderDashGameState hundredths True 0 ''1|3|0|14|0|1'' default_parameters = Inr butterfly_start"
  by code_simp

lemma butterfly_tick1:
  "apply_action 9 spec_tables kActionUp butterfly_start = Inr butterfly_exploded"
  by code_simp

lemma butterfly_tick2:
  "apply_action 9 spec_tables kActionUp butterfly_exploded = Inr butterfly_settled"
  by code_simp

lemma butterfly_tick3:
  "apply_action 9 spec_tables kActionRight butterfly_settled = Inr butterfly_moved"
  by code_simp

section \<open>The flags of the cells updated in a tick\<close>







section \<open>Reads and writes of single cells\<close>

lemma IndexFromDirection_cols:
  "cols s' = cols s \<Longrightarrow> IndexFromDirection s' i d = IndexFromDirection s i d"
  by (cases d) simp_all

lemma GetItem_Noop: "GetItem s i kNoop = (if in_grid s i then grid s ! nat i else kNull)"
  by (simp add: GetItem_def)

lemma IsType_in_grid:
  "IsType T s index element direction \<Longrightarrow> element \<noteq> kNull \<Longrightarrow>
   in_grid s (IndexFromDirection s index direction) \<and>
   grid s ! nat (IndexFromDirection s index direction) = element"
  by (auto simp: IsType_def GetItem_Noop Let_def split: if_splits)

lemma InBounds_cols_pos: "InBounds T s index direction \<Longrightarrow> 0 < cols s"
  by (auto simp: InBounds_def Let_def)

lemma SetItem_Inr:
  "in_vectors s (IndexFromDirection s index direction) \<Longrightarrow>
   SetItem index element direction s =
     Inr (s\<lparr>hash := hash s XOR
                   to_local_hash (flat_size_of s)
                     (grid s ! nat (IndexFromDirection s index direction))
                     (IndexFromDirection s index direction) XOR
                   to_local_hash (flat_size_of s) element (IndexFromDirection s index direction),
           grid := (grid s)[nat (IndexFromDirection s index direction) := element],
           has_updated := (has_updated s)[nat (IndexFromDirection s index direction) := True]\<rparr>)"
  by (simp add: SetItem_def Let_def xor.assoc)

lemma MoveItem_Inr:
  "in_vectors s (IndexFromDirection s index direction) \<Longrightarrow> in_grid s index \<Longrightarrow>
   MoveItem index direction s =
     Inr (s\<lparr>hash := hash (projr (MoveItem index direction s)),
           grid := ((grid s)[nat (IndexFromDirection s index direction) := grid s ! nat index])
                     [nat index := kEmpty],
           has_updated := (has_updated s)[nat (IndexFromDirection s index direction) := True]\<rparr>)"
  by (simp add: MoveItem_def Let_def)

section \<open>A falling stone on a nut\<close>

text \<open>
  C4, as the code has it. When a falling stone updates with a nut directly below it and
  none of the earlier branches of the rule applies, the cell below becomes a diamond and
  the \<open>NutToDiamond\<close> bit is OR-ed into the reward signal; the stone's own cell is left
  as it is, a falling stone.
\<close>

theorem UpdateStoneFalling_cracks_nut:
  assumes stone: "GetItem s index kNoop = kStoneFalling"
    and nut: "IsType T s index kNut kDown"
    and not_empty: "\<not> IsType T s index kEmpty kDown"
    and not_butterfly:
      "\<not> (butterfly_explosion_ver s = kConvert \<and> IsButterfly T (GetItem s index kDown))"
    and not_explosive: "\<not> HasProperty T s index kCanExplode kDown"
    and not_magic: "\<not> IsType T s index kWallMagicOn kDown"
      "\<not> IsType T s index kWallMagicDormant kDown"
    and flags: "length (has_updated s) = length (grid s)"
  shows "\<exists>s'. UpdateStoneFalling fuel T index s = Inr s' \<and>
           GetItem s' index kNoop = kStoneFalling \<and>
           GetItem s' index kDown = kDiamond \<and>
           grid s' = (grid s)[nat (index + cols s) := kDiamond] \<and>
           reward_signal s' = reward_signal s OR kRewardNutToDiamond"
proof -
  let ?below = "IndexFromDirection s index kDown"
  have below: "?below = index + cols s" by simp
  have g: "in_grid s ?below" using IsType_in_grid [OF nut] by simp
  then have v: "in_vectors s ?below" using flags by (simp add: in_grid_def in_vectors_def)
  have pos: "0 < cols s" using nut by (auto simp: IsType_def Let_def dest: InBounds_cols_pos)
  have i: "in_grid s index" using stone by (auto simp: GetItem_Noop split: if_splits)
  define h where "h = hash s XOR to_local_hash (flat_size_of s) (grid s ! nat ?below) ?below XOR
                     to_local_hash (flat_size_of s) kDiamond ?below"
  have set: "SetItem index kDiamond kDown s =
       Inr (s\<lparr>hash := h, grid := (grid s)[nat ?below := kDiamond],
             has_updated := (has_updated s)[nat ?below := True]\<rparr>)"
    using SetItem_Inr [OF v] by (simp add: h_def)
  have upd: "UpdateStoneFalling fuel T index s =
       Inr (s\<lparr>hash := h, grid := (grid s)[nat ?below := kDiamond],
             has_updated := (has_updated s)[nat ?below := True],
             reward_signal := reward_signal s OR kRewardNutToDiamond\<rparr>)"
    using not_empty not_butterfly not_explosive not_magic nut g set
    by (auto simp: UpdateStoneFalling_def and_then_def)
  have ne: "nat index \<noteq> nat (index + cols s)" using pos i by (simp add: in_grid_def eq_nat_nat_iff)
  show ?thesis
    using upd i g ne stone unfolding below
    by (auto simp: GetItem_def in_grid_def)
qed

theorem UpdateStoneFalling_cracks_nut_witness:
  "GetItem nut_start 0 kNoop = kStoneFalling \<and> IsType spec_tables nut_start 0 kNut kDown
   \<and> (\<exists>s'. UpdateStoneFalling 9 spec_tables 0 nut_start = Inr s' \<and>
           GetItem s' 0 kNoop = kStoneFalling \<and> GetItem s' 0 kDown = kDiamond \<and>
           grid s' = [kStoneFalling, kDiamond, kAgent] \<and>
           reward_signal s' = kRewardNutToDiamond)"
proof -
  have stone: "GetItem nut_start 0 kNoop = kStoneFalling"
    and nut: "IsType spec_tables nut_start 0 kNut kDown"
    and not_empty: "\<not> IsType spec_tables nut_start 0 kEmpty kDown"
    and not_butterfly: "\<not> (butterfly_explosion_ver nut_start = kConvert \<and>
                           IsButterfly spec_tables (GetItem nut_start 0 kDown))"
    and not_explosive: "\<not> HasProperty spec_tables nut_start 0 kCanExplode kDown"
    and not_magic: "\<not> IsType spec_tables nut_start 0 kWallMagicOn kDown"
      "\<not> IsType spec_tables nut_start 0 kWallMagicDormant kDown"
    and flags: "length (has_updated nut_start) = length (grid nut_start)"
    by code_simp+
  have vals: "grid nut_start = [kStoneFalling, kNut, kAgent]" "cols nut_start = 1"
    "reward_signal nut_start = 0"
    by (simp_all add: nut_start_def example_state_def)
  show ?thesis
    using UpdateStoneFalling_cracks_nut
            [OF stone nut not_empty not_butterfly not_explosive not_magic flags, of 9]
          stone nut
    by (simp add: vals)
qed

text \<open>
  C4 as stated fails: on the board \<open>3|1|0|4|39|0\<close> the falling stone at index 0 has the
  nut below it and no earlier branch applies; after the rule, and after the whole tick,
  the nut is a diamond and the cell of the stone still holds the falling stone, not
  \<open>kEmpty\<close>.
\<close>

theorem UpdateStoneFalling_on_nut_counterexample:
  "GetItem nut_start 0 kNoop = kStoneFalling \<and> IsType spec_tables nut_start 0 kNut kDown
   \<and> \<not> IsType spec_tables nut_start 0 kEmpty kDown
   \<and> butterfly_explosion_ver nut_start \<noteq> kConvert
   \<and> \<not> HasProperty spec_tables nut_start 0 kCanExplode kDown
   \<and> \<not> IsType spec_tables nut_start 0 kWallMagicOn kDown
   \<and> \<not> IsType spec_tables nut_start 0 kWallMagicDormant kDown
   \<and> map_sum id grid (UpdateStoneFalling 9 spec_tables 0 nut_start)
       = Inr [kStoneFalling, kDiamond, kAgent]
   \<and> apply_action 9 spec_tables kActionRight nut_start = Inr nut_after
   \<and> GetItem nut_after 0 kNoop = kStoneFalling
   \<and> GetItem nut_after 0 kNoop \<noteq> kEmpty"
proof -
  have "GetItem nut_start 0 kNoop = kStoneFalling" "IsType spec_tables nut_start 0 kNut kDown"
    "\<not> IsType spec_tables nut_start 0 kEmpty kDown"
    "butterfly_explosion_ver nut_start \<noteq> kConvert"
    "\<not> HasProperty spec_tables nut_start 0 kCanExplode kDown"
    "\<not> IsType spec_tables nut_start 0 kWallMagicOn kDown"
    "\<not> IsType spec_tables nut_start 0 kWallMagicDormant kDown"
    "map_sum id grid (UpdateStoneFalling 9 spec_tables 0 nut_start)
       = Inr [kStoneFalling, kDiamond, kAgent]"
    "GetItem nut_after 0 kNoop = kStoneFalling"
    by code_simp+
  then show ?thesis using nut_tick by simp
qed

section \<open>The agent update after the agent's death\<close>

text \<open>
  C8. \<^verbatim>\<open>apply_action\<close> tests neither \<^verbatim>\<open>is_agent_alive\<close> nor \<^verbatim>\<open>is_agent_in_exit\<close>: in
  every state, alive or not, it runs \<^verbatim>\<open>StartScan\<close> and then \<^verbatim>\<open>UpdateAgent\<close> at
  \<^verbatim>\<open>agent_idx\<close>. If the neighbour of that cell in the direction of the action is empty
  or dirt, the element at \<^verbatim>\<open>agent_idx\<close>, whatever it is, is moved into the neighbour,
  its old cell becomes empty, \<^verbatim>\<open>agent_idx\<close> advances to the neighbour, and the scan of
  the tick goes on from that state.
\<close>

theorem UpdateAgent_not_guarded_by_is_agent_alive:
  assumes start: "StartScan s = Inr t"
    and target: "IsType T t (agent_idx t) kEmpty (action_to_direction action) \<or>
                 IsType T t (agent_idx t) kDirt (action_to_direction action)"
    and src: "in_grid t (agent_idx t)"
    and flags: "length (has_updated t) = length (grid t)"
  shows "\<exists>u. UpdateAgent T (agent_idx t) (action_to_direction action) t = Inr u \<and>
           agent_idx u = IndexFromDirection t (agent_idx t) (action_to_direction action) \<and>
           GetItem u (agent_idx u) kNoop = GetItem t (agent_idx t) kNoop \<and>
           GetItem u (agent_idx t) kNoop = kEmpty \<and>
           is_agent_alive u = is_agent_alive s \<and>
           apply_action fuel T action s =
             and_then (for_each (flat_indices u) (update_cell fuel T) u) (\<lambda>s. Inr (EndScan s))"
proof -
  let ?d = "action_to_direction action"
  let ?i = "agent_idx t"
  let ?n = "IndexFromDirection t ?i ?d"
  have inb: "InBounds T t ?i ?d" using target by (auto simp: IsType_def Let_def)
  then have pos: "0 < cols t" by (rule InBounds_cols_pos)
  have g: "in_grid t ?n" using target IsType_in_grid by blast
  then have v: "in_vectors t ?n" using flags by (simp add: in_grid_def in_vectors_def)
  define h where "h = hash (projr (MoveItem ?i ?d t))"
  define moved where
    "moved = t\<lparr>hash := h, grid := ((grid t)[nat ?n := grid t ! nat ?i])[nat ?i := kEmpty],
               has_updated := (has_updated t)[nat ?n := True]\<rparr>"
  have mv: "MoveItem ?i ?d t = Inr moved"
    unfolding h_def moved_def by (rule MoveItem_Inr [OF v src])
  define u where "u = moved\<lparr>agent_idx := ?n\<rparr>"
  have "IndexFromDirection moved ?i ?d = ?n"
    by (rule IndexFromDirection_cols) (simp add: moved_def)
  then have ua: "UpdateAgent T ?i ?d t = Inr u"
    using inb target mv by (simp add: UpdateAgent_def and_then_def u_def)
  have ne: "nat ?n \<noteq> nat ?i"
    using pos src g by (cases action) (auto simp: in_grid_def eq_nat_nat_iff)
  have alive: "is_agent_alive t = is_agent_alive s" and c: "cols t = cols s"
    using start by (auto simp: StartScan_def Let_def split: if_splits)
  have aa: "apply_action fuel T action s =
             and_then (for_each (flat_indices u) (update_cell fuel T) u) (\<lambda>s. Inr (EndScan s))"
    using start ua pos by (simp add: apply_action_def and_then_def)
  have i2: "agent_idx u = ?n"
    and g2: "grid u = ((grid t)[nat ?n := grid t ! nat ?i])[nat ?i := kEmpty]"
    and al2: "is_agent_alive u = is_agent_alive t"
    by (simp_all add: u_def moved_def)
  have len: "nat ?n < length (grid t)" "nat ?i < length (grid t)"
    using g src by (simp_all add: in_grid_def nat_less_iff)
  have new: "GetItem u ?n kNoop = GetItem t ?i kNoop"
    using g src ne len by (simp add: GetItem_Noop in_grid_def g2)
  have old: "GetItem u ?i kNoop = kEmpty"
    using src len by (simp add: GetItem_Noop in_grid_def g2)
  show ?thesis
    using ua i2 new old al2 alive aa by (intro exI [of _ u]) simp
qed

text \<open>The witness: two ticks after the butterfly has killed the agent, the stale
  \<^verbatim>\<open>agent_idx\<close> 1 holds a diamond and its right neighbour is empty; the action
  \<open>Right\<close> moves the diamond and advances \<^verbatim>\<open>agent_idx\<close> to 2.\<close>

theorem UpdateAgent_not_guarded_by_is_agent_alive_witness:
  "\<not> is_agent_alive butterfly_settled
   \<and> StartScan butterfly_settled
       = Inr (butterfly_settled\<lparr>reward_signal := 0, has_updated := [False, False, False]\<rparr>)
   \<and> (\<exists>u. UpdateAgent spec_tables 1 kRight
              (butterfly_settled\<lparr>reward_signal := 0, has_updated := [False, False, False]\<rparr>)
            = Inr u \<and>
          agent_idx u = 2 \<and> GetItem u 2 kNoop = kDiamond \<and> GetItem u 1 kNoop = kEmpty \<and>
          \<not> is_agent_alive u \<and>
          apply_action 9 spec_tables kActionRight butterfly_settled =
            and_then (for_each (flat_indices u) (update_cell 9 spec_tables) u)
              (\<lambda>s. Inr (EndScan s)))
   \<and> apply_action 9 spec_tables kActionRight butterfly_settled = Inr butterfly_moved
   \<and> grid butterfly_moved = [kDiamond, kEmpty, kDiamond] \<and> agent_idx butterfly_moved = 2"
proof -
  let ?t = "butterfly_settled\<lparr>reward_signal := 0, has_updated := [False, False, False]\<rparr>"
  have start: "StartScan butterfly_settled = Inr ?t"
    and target: "IsType spec_tables ?t (agent_idx ?t) kEmpty (action_to_direction kActionRight) \<or>
                 IsType spec_tables ?t (agent_idx ?t) kDirt (action_to_direction kActionRight)"
    and src: "in_grid ?t (agent_idx ?t)"
    and flags: "length (has_updated ?t) = length (grid ?t)"
    and dead: "\<not> is_agent_alive butterfly_settled"
    by code_simp+
  have vals: "agent_idx ?t = 1" "GetItem ?t 1 kNoop = kDiamond"
    "grid butterfly_moved = [kDiamond, kEmpty, kDiamond]" "agent_idx butterfly_moved = 2"
    by code_simp+
  show ?thesis
    using UpdateAgent_not_guarded_by_is_agent_alive [OF start target src flags, of 9]
          start dead butterfly_tick3
    by (auto simp: vals)
qed

section \<open>Construction\<close>


lemma stoi_range: "stoi x = Inr v \<Longrightarrow> - (2 ^ 31) \<le> v \<and> v \<le> 2 ^ 31 - 1"
  by (auto simp: stoi_def Let_def split: if_splits)




















section \<open>Determinism\<close>





lemma flat_size_of_blob_max_size [simp]: "flat_size_of (s\<lparr>blob_max_size := x\<rparr>) = flat_size_of s"
  by (simp add: flat_size_of_def)










end
